theory Spec2Isabelle
  imports Main "HOL-Library.Word" "HOL-Library.AList"
begin

section \<open>JavaScript values used by the front end\<close>

text \<open>
  A JavaScript string is a sequence of UTF-16 code units; \<open>s.length\<close> counts code
  units, so it is \<open>length\<close> of the list. The string literals of the source are ASCII
  and are written \<open>utf16 ''...''\<close>.
\<close>

type_synonym js_string = "16 word list"

definition utf16 :: "string \<Rightarrow> js_string" where
  "utf16 s = map of_char s"

text \<open>
  \<open>WhiteSpace\<close> and \<open>LineTerminator\<close> of ECMAScript, the code units that
  \<open>String.prototype.trim\<close> strips and \<open>parseInt\<close> skips: TAB, LF, VT, FF, CR, SP,
  NBSP, U+1680, U+2000..U+200A, U+2028, U+2029, U+202F, U+205F, U+3000 and U+FEFF.
\<close>

definition is_white_space :: "16 word \<Rightarrow> bool" where
  "is_white_space c =
     (c \<in> set [0x9, 0xA, 0xB, 0xC, 0xD, 0x20, 0xA0, 0x1680, 0x2028, 0x2029,
                0x202F, 0x205F, 0x3000, 0xFEFF]
      \<or> (0x2000 \<le> c \<and> c \<le> 0x200A))"

definition trim_start :: "js_string \<Rightarrow> js_string" where
  "trim_start s = dropWhile is_white_space s"

definition trim :: "js_string \<Rightarrow> js_string" where
  "trim s = rev (trim_start (rev (trim_start s)))"

text \<open>
  A JavaScript number, as far as the form needs it: \<open>NaN\<close>, an integer-valued
  double \<open>Num n\<close>, or one of the two infinities. Negative zero is identified with
  zero: the only consumers here are \<open>Math.max(1, _)\<close>, \<open>_ < 1\<close> and \<open>isNaN\<close>,
  which do not tell them apart.
\<close>

datatype number = NaN | Num int | Infinity | NegInfinity

fun bit_length :: "nat \<Rightarrow> nat" where
  "bit_length n = (if n = 0 then 0 else Suc (bit_length (n div 2)))"

declare bit_length.simps [simp del]

text \<open>
  The double nearest to a natural number (round to nearest, ties to even; 53 bits of
  precision, overflow to infinity at \<open>2 ^ 1024\<close>). \<open>None\<close> is the overflow.
\<close>

definition round_to_double :: "nat \<Rightarrow> nat option" where
  "round_to_double n =
     (if n < 2 ^ 53 then Some n
      else
        (let e = bit_length n - 53;
             q = n div 2 ^ e;
             r = n mod 2 ^ e;
             h = 2 ^ (e - 1);
             q' = (if h < r \<or> (r = h \<and> odd q) then q + 1 else q);
             m = q' * 2 ^ e
         in if m < 2 ^ 1024 then Some m else None))"

definition to_number :: "bool \<Rightarrow> nat \<Rightarrow> number" where
  "to_number negative n =
     (case round_to_double n of
        Some m \<Rightarrow> Num (if negative then - int m else int m)
      | None \<Rightarrow> (if negative then NegInfinity else Infinity))"

text \<open>The value of a code unit as a digit: \<open>0-9\<close>, \<open>a-z\<close>, \<open>A-Z\<close>.\<close>

definition digit_value :: "16 word \<Rightarrow> nat option" where
  "digit_value c =
     (if 0x30 \<le> c \<and> c \<le> 0x39 then Some (unat c - 0x30)
      else if 0x61 \<le> c \<and> c \<le> 0x7A then Some (unat c - 0x61 + 10)
      else if 0x41 \<le> c \<and> c \<le> 0x5A then Some (unat c - 0x41 + 10)
      else None)"

definition is_radix_digit :: "nat \<Rightarrow> 16 word \<Rightarrow> bool" where
  "is_radix_digit R c = (case digit_value c of Some d \<Rightarrow> d < R | None \<Rightarrow> False)"

definition digits_value :: "nat \<Rightarrow> js_string \<Rightarrow> nat" where
  "digits_value R Z =
     foldl (\<lambda>acc c. acc * R + (case digit_value c of Some d \<Rightarrow> d | None \<Rightarrow> 0)) 0 Z"

text \<open>
  \<open>parseInt(string)\<close> with no radix argument (ECMAScript 19.2.5): skip leading white
  space, read a sign, read the prefix \<open>0x\<close> or \<open>0X\<close> (radix 16, otherwise 10), take the
  longest run of digits of that radix; \<open>NaN\<close> when the run is empty.
\<close>

definition strip_sign :: "js_string \<Rightarrow> bool \<times> js_string" where
  "strip_sign S =
     (case S of
        [] \<Rightarrow> (False, S)
      | c # rest \<Rightarrow>
          (if c = 0x2D then (True, rest) else if c = 0x2B then (False, rest) else (False, S)))"

definition strip_prefix :: "js_string \<Rightarrow> nat \<times> js_string" where
  "strip_prefix S =
     (if take 2 S = [0x30, 0x78] \<or> take 2 S = [0x30, 0x58] then (16, drop 2 S) else (10, S))"

definition digit_run :: "js_string \<Rightarrow> bool \<times> nat \<times> js_string" where
  "digit_run string =
     (let (negative, S) = strip_sign (trim_start string);
          (R, S) = strip_prefix S
      in (negative, R, takeWhile (is_radix_digit R) S))"

definition parseInt :: "js_string \<Rightarrow> number" where
  "parseInt string =
     (let (negative, R, Z) = digit_run string
      in if Z = [] then NaN else to_number negative (digits_value R Z))"

text \<open>\<open>Math.max(a, b)\<close>: \<open>NaN\<close> when either argument is, the larger one otherwise.\<close>

fun Math_max :: "number \<Rightarrow> number \<Rightarrow> number" where
  "Math_max NaN _ = NaN"
| "Math_max _ NaN = NaN"
| "Math_max Infinity _ = Infinity"
| "Math_max _ Infinity = Infinity"
| "Math_max NegInfinity b = b"
| "Math_max a NegInfinity = a"
| "Math_max (Num a) (Num b) = Num (max a b)"

text \<open>\<open>a < b\<close> on numbers: false whenever an argument is \<open>NaN\<close>.\<close>

fun number_less :: "number \<Rightarrow> number \<Rightarrow> bool" where
  "number_less NaN _ = False"
| "number_less _ NaN = False"
| "number_less Infinity _ = False"
| "number_less _ NegInfinity = False"
| "number_less NegInfinity _ = True"
| "number_less _ Infinity = True"
| "number_less (Num a) (Num b) = (a < b)"

definition isNaN :: "number \<Rightarrow> bool" where
  "isNaN x = (x = NaN)"

text \<open>
  The reason a promise rejects with, which is the value a \<open>catch\<close> block receives
  (typed \<open>unknown\<close>): null, undefined, or any other value, given by what reading its
  \<open>message\<close> property yields (\<open>None\<close> when the value has no such property).
\<close>

record failure =
  message :: "js_string option"

datatype reason = Null | Undefined | Value failure

text \<open>The outcome of an awaited promise.\<close>

datatype 'a settled = Fulfilled 'a | Rejected reason

text \<open>
  Reading \<open>err.message\<close>: on null and undefined it throws a TypeError (\<open>Inl\<close>, the
  error object thrown), on any other value it yields the property. The wording of the
  TypeError is V8's; nothing below depends on it.
\<close>

definition cannot_read_message :: "reason \<Rightarrow> js_string" where
  "cannot_read_message err =
     utf16 ''Cannot read properties of ''
     @ (case err of Null \<Rightarrow> utf16 ''null'' | _ \<Rightarrow> utf16 ''undefined'')
     @ utf16 '' (reading '' @ [0x27] @ utf16 ''message'' @ [0x27] @ utf16 '')''"

definition read_message :: "reason \<Rightarrow> reason + js_string option" where
  "read_message err =
     (case err of
        Value f \<Rightarrow> Inr (message f)
      | _ \<Rightarrow> Inl (Value \<lparr>message = Some (cannot_read_message err)\<rparr>))"

text \<open>\<open>a || b\<close> where \<open>a\<close> is a string or undefined: \<open>b\<close> when \<open>a\<close> is falsy.\<close>

definition or_else :: "js_string option \<Rightarrow> js_string \<Rightarrow> js_string" where
  "or_else a b = (case a of Some m \<Rightarrow> (if m \<noteq> [] then m else b) | None \<Rightarrow> b)"


section \<open>BookForm.tsx\<close>

record File =
  type :: js_string
  bytes :: "8 word list"

record BookAdd =
  title :: js_string
  author :: js_string
  cover :: "File option"
  quantity :: number

text \<open>
  The \<open>errors\<close> object: an object with optional string properties, kept as an
  association list in insertion order, as \<open>Object.keys\<close> sees it. Assigning a
  property replaces the value of a key that is there and appends a new key otherwise.
\<close>

datatype field_name = Title | Author | Quantity | Cover

type_synonym field_errors = "(field_name \<times> js_string) list"

definition set_property :: "field_name \<Rightarrow> js_string \<Rightarrow> field_errors \<Rightarrow> field_errors" where
  "set_property k v obj = AList.update k v obj"

record form_state =
  formData :: BookAdd
  preview :: js_string
  errors :: field_errors

definition initial_formData :: BookAdd where
  "initial_formData = \<lparr>title = [], author = [], cover = None, quantity = Num 1\<rparr>"

definition initial_state :: form_state where
  "initial_state = \<lparr>formData = initial_formData, preview = [], errors = []\<rparr>"

definition allowedTypes :: "js_string list" where
  "allowedTypes = [utf16 ''image/jpeg'', utf16 ''image/png'', utf16 ''image/gif'']"

text \<open>
  The object \<open>newErrors\<close> that \<open>validate\<close> builds (lines 23 to 46), one step per
  \<open>if\<close> of the source, in the source's order. The draft read is the \<open>formData\<close> of the
  render the handler closes over.
\<close>

definition check_title :: "BookAdd \<Rightarrow> field_errors \<Rightarrow> field_errors" where
  "check_title d e =
     (if trim (title d) = [] \<or> length (title d) < 3
      then set_property Title (utf16 ''Title must be at least 3 characters long.'') e
      else e)"

definition check_author :: "BookAdd \<Rightarrow> field_errors \<Rightarrow> field_errors" where
  "check_author d e =
     (if trim (author d) = [] \<or> length (author d) < 3
      then set_property Author (utf16 ''Author name must be at least 3 characters long.'') e
      else e)"

definition check_quantity :: "BookAdd \<Rightarrow> field_errors \<Rightarrow> field_errors" where
  "check_quantity d e =
     (if number_less (quantity d) (Num 1) \<or> isNaN (quantity d)
      then set_property Quantity (utf16 ''Quantity must be a positive number.'') e
      else e)"

definition check_cover_type :: "BookAdd \<Rightarrow> field_errors \<Rightarrow> field_errors" where
  "check_cover_type d e =
     (case cover d of
        Some f \<Rightarrow>
          (if type f \<notin> set allowedTypes \<or> cover d = None
           then set_property Cover (utf16 ''Only JPG, PNG, or GIF images are allowed.'') e
           else e)
      | None \<Rightarrow> e)"

definition check_cover_present :: "BookAdd \<Rightarrow> field_errors \<Rightarrow> field_errors" where
  "check_cover_present d e =
     (if cover d = None
      then set_property Cover (utf16 ''Please upload an image.'') e
      else e)"

definition newErrors :: "BookAdd \<Rightarrow> field_errors" where
  "newErrors d =
     check_cover_present d (check_cover_type d (check_quantity d
       (check_author d (check_title d []))))"

text \<open>
  What a handler does, in order: the state setters of the component, the calls to the
  Resource Store (\<open>add\<close>, \<open>getAll\<close>) and the call of the \<open>handle\<close> prop that closes
  the form. \<open>FormData\<close> is the multipart payload, a list of appended entries; the entry
  \<open>NumberText q\<close> stands for the string \<open>q.toString()\<close>, and a null cover is
  appended as the string \<open>null\<close>.
\<close>

datatype form_value = Text js_string | NumberText number | FileValue File

type_synonym FormData = "(js_string \<times> form_value) list"

datatype form_effect =
    PreventDefault
  | SetErrors field_errors
  | SetFormData BookAdd
  | SetPreview js_string
  | Add FormData
  | GetAll int
  | Handle

fun apply_form_effect :: "form_state \<Rightarrow> form_effect \<Rightarrow> form_state" where
  "apply_form_effect s (SetErrors e) = s\<lparr>errors := e\<rparr>"
| "apply_form_effect s (SetFormData d) = s\<lparr>formData := d\<rparr>"
| "apply_form_effect s (SetPreview p) = s\<lparr>preview := p\<rparr>"
| "apply_form_effect s _ = s"

definition run_form :: "form_state \<Rightarrow> form_effect list \<Rightarrow> form_state" where
  "run_form s effects = foldl apply_form_effect s effects"

text \<open>The calls that reach the network: those on the Resource Store.\<close>

definition is_network_call :: "form_effect \<Rightarrow> bool" where
  "is_network_call x = (case x of Add _ \<Rightarrow> True | GetAll _ \<Rightarrow> True | _ \<Rightarrow> False)"

text \<open>\<open>validate\<close> (lines 22 to 50): stores \<open>newErrors\<close> and returns whether it has no key.\<close>

definition validate :: "BookAdd \<Rightarrow> form_effect list \<times> bool" where
  "validate d = ([SetErrors (newErrors d)], length (newErrors d) = 0)"

definition payload :: "BookAdd \<Rightarrow> FormData" where
  "payload d =
     [(utf16 ''title'', Text (title d)),
      (utf16 ''author'', Text (author d)),
      (utf16 ''quantity'', NumberText (quantity d))]
     @ [(utf16 ''cover'',
         (case cover d of Some f \<Rightarrow> FileValue f | None \<Rightarrow> Text (utf16 ''null'')))]"

text \<open>
  \<open>handleSubmit\<close> (lines 52 to 67). \<open>current_page\<close> is the store's page cursor, \<open>d\<close> the
  draft of the current render and \<open>add_result\<close> how the promise of \<open>add(form)\<close> settles.
  The result is the effects in order and how the promise of \<open>handleSubmit\<close> itself
  settles: \<open>await add(form)\<close> rethrows a rejection, and nothing catches it. The promise
  of \<open>getAll\<close> is not awaited. The calls themselves (\<open>add\<close>, \<open>getAll\<close>, \<open>handle\<close>) are
  taken to return without throwing.
\<close>

definition handleSubmit ::
  "int \<Rightarrow> BookAdd \<Rightarrow> unit settled \<Rightarrow> form_effect list \<times> unit settled" where
  "handleSubmit current_page d add_result =
     (let (validated, valid) = validate d in
      if \<not> valid then (PreventDefault # validated, Fulfilled ())
      else
        (let form = payload d in
         case add_result of
           Rejected err \<Rightarrow> (PreventDefault # validated @ [Add form], Rejected err)
         | Fulfilled _ \<Rightarrow>
             (PreventDefault # validated @
                [Add form, GetAll current_page,
                 SetFormData \<lparr>title = [], author = [], cover = None, quantity = Num 1\<rparr>,
                 SetPreview [], Handle],
              Fulfilled ())))"

text \<open>
  \<open>handleChange\<close> (lines 69 to 76), bound to the inputs named \<open>title\<close>, \<open>author\<close> and
  \<open>quantity\<close> (lines 130, 149, 168). The updater of \<open>setFormData\<close> is applied to the
  draft \<open>d\<close>; the \<open>validate()\<close> that follows reads the draft of the current render,
  which is \<open>d\<close> before the update.
\<close>

datatype input_name = Name_title | Name_author | Name_quantity

definition handleChange :: "BookAdd \<Rightarrow> input_name \<Rightarrow> js_string \<Rightarrow> form_effect list" where
  "handleChange d name value =
     SetFormData
       (case name of
          Name_quantity \<Rightarrow> d\<lparr>quantity := Math_max (Num 1) (parseInt value)\<rparr>
        | Name_title \<Rightarrow> d\<lparr>title := value\<rparr>
        | Name_author \<Rightarrow> d\<lparr>author := value\<rparr>)
     # fst (validate d)"

subsection \<open>Example drafts and states\<close>

text \<open>
  A draft that passes \<open>validate\<close>, the same draft with a PDF as cover, and a state of
  the form that holds the first.
\<close>

definition dune_draft :: BookAdd where
  "dune_draft =
     \<lparr>title = utf16 ''Dune'', author = utf16 ''Frank Herbert'',
      cover = Some \<lparr>type = utf16 ''image/png'', bytes = [0x89, 0x50, 0x4E, 0x47]\<rparr>,
      quantity = Num 2\<rparr>"

definition pdf_draft :: BookAdd where
  "pdf_draft =
     dune_draft\<lparr>cover := Some \<lparr>type = utf16 ''application/pdf'', bytes = [0x25, 0x50, 0x44, 0x46]\<rparr>\<rparr>"

definition dune_state :: form_state where
  "dune_state = \<lparr>formData = dune_draft, preview = utf16 ''data:image/png;base64,iVBORw=='', errors = []\<rparr>"

text \<open>
  The state the form is in after a \<open>handleChange\<close> has completed the title of
  \<open>dune_state\<close> from \<open>Du\<close> to \<open>Dune\<close>: the draft is \<open>dune_draft\<close>, the errors are
  those of the draft before the key stroke.
\<close>

definition short_title_state :: form_state where
  "short_title_state = dune_state\<lparr>formData := dune_draft\<lparr>title := utf16 ''Du''\<rparr>\<rparr>"

definition stale_state :: form_state where
  "stale_state =
     run_form short_title_state
       (handleChange (formData short_title_state) Name_title (utf16 ''Dune''))"


section \<open>authController.ts\<close>

record auth_state =
  loading :: bool
  error :: "js_string option"

text \<open>
  The response of the gateway: \<open>response.data\<close> is the envelope \<open>{data}\<close>, whose
  \<open>data\<close> is \<open>{access_token}\<close> or null.
\<close>

record token_data =
  access_token :: js_string

record envelope =
  data :: "token_data option"

record response =
  data :: envelope

datatype auth_effect =
    SetLoading bool
  | SetError "js_string option"
  | AuthService_login js_string js_string
  | AuthService_register js_string js_string js_string js_string
  | AuthService_logout
  | Console_log reason
  | Login js_string
  | Logout
  | Navigate js_string

fun apply_auth_effect :: "auth_state \<Rightarrow> auth_effect \<Rightarrow> auth_state" where
  "apply_auth_effect s (SetLoading b) = s\<lparr>loading := b\<rparr>"
| "apply_auth_effect s (SetError e) = s\<lparr>error := e\<rparr>"
| "apply_auth_effect s _ = s"

text \<open>The calls on the Session Store, and the navigation triggers.\<close>

definition is_store_mutation :: "auth_effect \<Rightarrow> bool" where
  "is_store_mutation x = (case x of Login _ \<Rightarrow> True | Logout \<Rightarrow> True | _ \<Rightarrow> False)"

definition is_navigation :: "auth_effect \<Rightarrow> bool" where
  "is_navigation x = (case x of Navigate _ \<Rightarrow> True | _ \<Rightarrow> False)"

definition run_auth :: "auth_state \<Rightarrow> auth_effect list \<Rightarrow> auth_state" where
  "run_auth s effects = foldl apply_auth_effect s effects"

definition idle :: auth_state where
  "idle = \<lparr>loading = False, error = None\<rparr>"

text \<open>
  \<open>handleLogin\<close> (lines 30 to 48): the effects in order, and how the promise of the
  handler settles. \<open>login_result\<close> is how \<open>authService.login\<close> settles; a rejection
  goes to the \<open>catch\<close> block, and the \<open>finally\<close> block runs last on every path. In the
  \<open>catch\<close> block, reading \<open>err.message\<close> throws when \<open>err\<close> is null or undefined: then
  \<open>setError\<close> is not reached, the \<open>finally\<close> block runs, and the promise of the handler
  rejects with the TypeError. The store's \<open>login\<close> and \<open>navigate\<close> are taken to return
  without throwing.
\<close>

definition handleLogin ::
  "js_string \<Rightarrow> js_string \<Rightarrow> response settled \<Rightarrow> auth_effect list \<times> unit settled" where
  "handleLogin email password login_result =
     (case login_result of
        Fulfilled response \<Rightarrow>
          ([SetLoading True, SetError None, AuthService_login email password]
           @ (case envelope.data (response.data response) of
                Some d \<Rightarrow> [Login (access_token d), Navigate (utf16 ''/'')]
              | None \<Rightarrow> [SetError (Some (utf16 ''Login failed, please try again''))])
           @ [SetLoading False],
           Fulfilled ())
      | Rejected err \<Rightarrow>
          (case read_message err of
             Inr m \<Rightarrow>
               ([SetLoading True, SetError None, AuthService_login email password]
                @ [Console_log err,
                   SetError (Some (or_else m (utf16 ''Invalid credentials'')))]
                @ [SetLoading False],
                Fulfilled ())
           | Inl type_error \<Rightarrow>
               ([SetLoading True, SetError None, AuthService_login email password]
                @ [Console_log err]
                @ [SetLoading False],
                Rejected type_error)))"

text \<open>\<open>register\<close> (lines 67 to 84), with the same \<open>catch\<close> and \<open>finally\<close> blocks.\<close>

definition register ::
  "js_string \<Rightarrow> js_string \<Rightarrow> js_string \<Rightarrow> js_string \<Rightarrow> response settled
     \<Rightarrow> auth_effect list \<times> unit settled" where
  "register name email password password_confirmation register_result =
     (case register_result of
        Fulfilled response \<Rightarrow>
          ([SetLoading True, SetError None,
            AuthService_register name email password password_confirmation]
           @ (case envelope.data (response.data response) of
                Some d \<Rightarrow> [Login (access_token d), Navigate (utf16 ''/'')]
              | None \<Rightarrow> [SetError (Some (utf16 ''Registering failed, please try again''))])
           @ [SetLoading False],
           Fulfilled ())
      | Rejected err \<Rightarrow>
          (case read_message err of
             Inr m \<Rightarrow>
               ([SetLoading True, SetError None,
                 AuthService_register name email password password_confirmation]
                @ [SetError (Some (or_else m (utf16 ''Register failed'')))]
                @ [SetLoading False],
                Fulfilled ())
           | Inl type_error \<Rightarrow>
               ([SetLoading True, SetError None,
                 AuthService_register name email password password_confirmation]
                @ [SetLoading False],
                Rejected type_error)))"

text \<open>
  \<open>handleLogout\<close> (lines 87 to 91): \<open>await authService.logout()\<close> rethrows a
  rejection, which ends the handler there.
\<close>

definition handleLogout :: "unit settled \<Rightarrow> auth_effect list \<times> unit settled" where
  "handleLogout logout_result =
     (case logout_result of
        Rejected err \<Rightarrow> ([AuthService_logout], Rejected err)
      | Fulfilled _ \<Rightarrow>
          ([AuthService_logout, Logout, Navigate (utf16 ''/login'')], Fulfilled ()))"


section \<open>Properties of the validation pass\<close>

lemma map_of_set_property:
  "map_of (set_property k v e) k' = (if k' = k then Some v else map_of e k')"
  by (simp add: set_property_def update_conv')

lemma set_property_not_Nil: "set_property k v e \<noteq> []"
  by (cases e) (simp_all add: set_property_def)

lemma length_trim_le: "length (trim s) \<le> length s"
proof -
  have "length (trim s) \<le> length (trim_start s)"
    unfolding trim_def trim_start_def
    by (metis length_dropWhile_le length_rev)
  also have "\<dots> \<le> length s"
    unfolding trim_start_def by (rule length_dropWhile_le)
  finally show ?thesis .
qed

lemma map_of_check_title:
  "map_of (check_title d e) k =
     (if k = Title \<and> (trim (title d) = [] \<or> length (title d) < 3)
      then Some (utf16 ''Title must be at least 3 characters long.'') else map_of e k)"
  by (simp add: check_title_def map_of_set_property)

lemma map_of_check_author:
  "map_of (check_author d e) k =
     (if k = Author \<and> (trim (author d) = [] \<or> length (author d) < 3)
      then Some (utf16 ''Author name must be at least 3 characters long.'') else map_of e k)"
  by (simp add: check_author_def map_of_set_property)

lemma map_of_check_quantity:
  "map_of (check_quantity d e) k =
     (if k = Quantity \<and> (number_less (quantity d) (Num 1) \<or> isNaN (quantity d))
      then Some (utf16 ''Quantity must be a positive number.'') else map_of e k)"
  by (simp add: check_quantity_def map_of_set_property)

lemma map_of_check_cover_type:
  "map_of (check_cover_type d e) k =
     (if k = Cover \<and> (\<exists>f. cover d = Some f \<and> type f \<notin> set allowedTypes)
      then Some (utf16 ''Only JPG, PNG, or GIF images are allowed.'') else map_of e k)"
  by (simp add: check_cover_type_def map_of_set_property split: option.split)

lemma map_of_check_cover_present:
  "map_of (check_cover_present d e) k =
     (if k = Cover \<and> cover d = None
      then Some (utf16 ''Please upload an image.'') else map_of e k)"
  by (simp add: check_cover_present_def map_of_set_property)

lemmas map_of_checks = map_of_check_title map_of_check_author map_of_check_quantity
  map_of_check_cover_type map_of_check_cover_present

lemma newErrors_Title:
  "map_of (newErrors d) Title =
     (if trim (title d) = [] \<or> length (title d) < 3
      then Some (utf16 ''Title must be at least 3 characters long.'') else None)"
  unfolding newErrors_def by (simp only: map_of_checks) simp

lemma newErrors_Author:
  "map_of (newErrors d) Author =
     (if trim (author d) = [] \<or> length (author d) < 3
      then Some (utf16 ''Author name must be at least 3 characters long.'') else None)"
  unfolding newErrors_def by (simp only: map_of_checks) simp

lemma newErrors_Quantity:
  "map_of (newErrors d) Quantity =
     (if number_less (quantity d) (Num 1) \<or> isNaN (quantity d)
      then Some (utf16 ''Quantity must be a positive number.'') else None)"
  unfolding newErrors_def by (simp only: map_of_checks) simp

lemma newErrors_Cover:
  "map_of (newErrors d) Cover =
     (case cover d of
        None \<Rightarrow> Some (utf16 ''Please upload an image.'')
      | Some f \<Rightarrow>
          (if type f \<in> set allowedTypes then None
           else Some (utf16 ''Only JPG, PNG, or GIF images are allowed.'')))"
  unfolding newErrors_def by (simp only: map_of_checks) (simp split: option.split)

text \<open>\<open>validate\<close> accepts a draft exactly when none of its five checks fires.\<close>

lemma newErrors_Nil_iff:
  "newErrors d = [] \<longleftrightarrow>
     \<not> (trim (title d) = [] \<or> length (title d) < 3) \<and>
     \<not> (trim (author d) = [] \<or> length (author d) < 3) \<and>
     \<not> (number_less (quantity d) (Num 1) \<or> isNaN (quantity d)) \<and>
     (\<exists>f. cover d = Some f \<and> type f \<in> set allowedTypes)"
  by (auto simp: newErrors_def check_title_def check_author_def check_quantity_def
      check_cover_type_def check_cover_present_def set_property_not_Nil split: option.splits)

lemma valid_iff: "snd (validate d) \<longleftrightarrow> newErrors d = []"
  by (simp add: validate_def)

lemma invalid_newErrors:
  assumes "length (title d) < 3 \<or> length (author d) < 3
           \<or> number_less (quantity d) (Num 1) \<or> isNaN (quantity d)
           \<or> cover d = None \<or> (\<exists>f. cover d = Some f \<and> type f \<notin> set allowedTypes)"
  shows "newErrors d \<noteq> []"
  using assms by (auto simp: newErrors_Nil_iff)

lemma cover_messages_differ:
  "utf16 ''Please upload an image.'' \<noteq> utf16 ''Only JPG, PNG, or GIF images are allowed.''"
  by (simp add: utf16_def)


section \<open>Properties of \<open>parseInt\<close> and \<open>Math.max\<close>\<close>

lemma to_number_not_NaN: "to_number negative n \<noteq> NaN"
  by (simp add: to_number_def split: option.split)

text \<open>\<open>parseInt\<close> is \<open>NaN\<close> exactly when it finds no digit to read.\<close>

lemma parseInt_NaN_iff: "parseInt raw = NaN \<longleftrightarrow> snd (snd (digit_run raw)) = []"
  by (simp add: parseInt_def Let_def to_number_not_NaN split: prod.split)

lemma Math_max_1_floor:
  "x \<noteq> NaN \<Longrightarrow> Math_max (Num 1) x = Infinity \<or> (\<exists>n\<ge>1. Math_max (Num 1) x = Num n)"
  by (cases x) simp_all

lemma Math_max_1_not_less: "\<not> number_less (Math_max (Num 1) x) (Num 1)"
  by (cases x) simp_all

lemma stored_quantity:
  "quantity (formData (run_form s (handleChange (formData s) Name_quantity raw)))
     = Math_max (Num 1) (parseInt raw)"
  by (simp add: run_form_def handleChange_def validate_def)


section \<open>The example inputs\<close>

lemmas string_eval = utf16_def trim_def trim_start_def is_white_space_def

lemmas parseInt_eval = parseInt_def digit_run_def utf16_def trim_start_def is_white_space_def
  strip_sign_def strip_prefix_def is_radix_digit_def digit_value_def digits_value_def
  to_number_def round_to_double_def

lemma parseInt_minus_5: "parseInt (utf16 ''-5'') = Num (- 5)"
  by (simp add: parseInt_eval)

lemma parseInt_abc: "parseInt (utf16 ''abc'') = NaN"
  by (simp add: parseInt_eval)

lemma parseInt_empty: "parseInt [] = NaN"
  by (simp add: parseInt_eval)

lemma dune_draft_valid: "newErrors dune_draft = []"
  by (simp add: newErrors_Nil_iff dune_draft_def allowedTypes_def isNaN_def string_eval)

lemma dune_state_valid: "snd (validate (formData dune_state))"
  by (simp add: valid_iff dune_state_def dune_draft_valid)

lemma initial_formData_invalid: "length (title initial_formData) < 3"
  by (simp add: initial_formData_def)

lemma pdf_draft_invalid:
  "\<exists>f. cover pdf_draft = Some f \<and> type f \<notin> set allowedTypes"
  by (simp add: pdf_draft_def dune_draft_def allowedTypes_def utf16_def)

lemma formData_stale_state: "formData stale_state = dune_draft"
  by (simp add: stale_state_def short_title_state_def dune_state_def dune_draft_def
      run_form_def handleChange_def validate_def)

lemma errors_stale_state:
  "errors stale_state = [(Title, utf16 ''Title must be at least 3 characters long.'')]"
proof -
  have "newErrors (dune_draft\<lparr>title := utf16 ''Du''\<rparr>)
          = [(Title, utf16 ''Title must be at least 3 characters long.'')]"
    by (simp add: newErrors_def check_title_def check_author_def check_quantity_def
        check_cover_type_def check_cover_present_def set_property_def dune_draft_def
        allowedTypes_def isNaN_def string_eval)
  then show ?thesis
    by (simp add: stale_state_def short_title_state_def dune_state_def run_form_def
        handleChange_def validate_def)
qed


section \<open>Properties of the auth handlers\<close>

lemma handleLogin_shape:
  "\<exists>mid. fst (handleLogin email password r)
     = [SetLoading True, SetError None, AuthService_login email password]
       @ mid @ [SetLoading False]"
  by (simp add: handleLogin_def split: settled.split sum.split)

lemma register_shape:
  "\<exists>mid. fst (register name email password password_confirmation r)
     = [SetLoading True, SetError None,
        AuthService_register name email password password_confirmation]
       @ mid @ [SetLoading False]"
  by (simp add: register_def split: settled.split sum.split)

lemma loading_after_last: "loading (run_auth s (xs @ [SetLoading b])) = b"
  by (simp add: run_auth_def)


section \<open>The claims on BookForm.tsx\<close>

text \<open>
  C2, as the code has it. For every draft, \<open>validate\<close> reports a title error exactly when
  the title is blank after trimming or its untrimmed length is below 3, and an author
  error exactly when the author is blank after trimming or its untrimmed length is below
  3. So a title or author whose untrimmed length is below 3 always gets an error, and one
  whose trimmed length is at least 3 never does.
\<close>

theorem C2_title_author_errors:
  "map_of (newErrors d) Title =
     (if trim (title d) = [] \<or> length (title d) < 3
      then Some (utf16 ''Title must be at least 3 characters long.'') else None)
   \<and> map_of (newErrors d) Author =
     (if trim (author d) = [] \<or> length (author d) < 3
      then Some (utf16 ''Author name must be at least 3 characters long.'') else None)
   \<and> (length (title d) < 3 \<longrightarrow> map_of (newErrors d) Title \<noteq> None)
   \<and> (length (author d) < 3 \<longrightarrow> map_of (newErrors d) Author \<noteq> None)
   \<and> (3 \<le> length (trim (title d)) \<longrightarrow> map_of (newErrors d) Title = None)
   \<and> (3 \<le> length (trim (author d)) \<longrightarrow> map_of (newErrors d) Author = None)"
proof -
  have t: "3 \<le> length (trim (title d)) \<Longrightarrow> trim (title d) \<noteq> [] \<and> \<not> length (title d) < 3"
    using length_trim_le [of "title d"] by auto
  have a: "3 \<le> length (trim (author d)) \<Longrightarrow> trim (author d) \<noteq> [] \<and> \<not> length (author d) < 3"
    using length_trim_le [of "author d"] by auto
  show ?thesis
    using t a by (simp add: newErrors_Title newErrors_Author)
qed

text \<open>
  C2 at two drafts: the empty draft of a fresh form has both errors, the draft
  \<open>dune_draft\<close> has neither.
\<close>

theorem C2_title_author_errors_witness:
  "length (title initial_formData) < 3
   \<and> map_of (newErrors initial_formData) Title \<noteq> None
   \<and> length (author initial_formData) < 3
   \<and> map_of (newErrors initial_formData) Author \<noteq> None
   \<and> 3 \<le> length (trim (title dune_draft))
   \<and> map_of (newErrors dune_draft) Title = None
   \<and> 3 \<le> length (trim (author dune_draft))
   \<and> map_of (newErrors dune_draft) Author = None"
proof -
  have i: "length (title initial_formData) < 3 \<and> length (author initial_formData) < 3"
    by (simp add: initial_formData_def)
  have d: "3 \<le> length (trim (title dune_draft)) \<and> 3 \<le> length (trim (author dune_draft))"
    by (simp add: dune_draft_def string_eval)
  show ?thesis
    using i d C2_title_author_errors [of initial_formData] C2_title_author_errors [of dune_draft]
    by blast
qed

text \<open>
  C2 as stated fails: the title of two spaces, \<open>a\<close> and two spaces has trimmed length 1,
  and \<open>validate\<close> reports no title error for it, since it is not blank and its
  untrimmed length is 5.
\<close>

theorem C2_title_author_errors_counterexample:
  "length (trim (title (dune_draft\<lparr>title := utf16 ''  a  ''\<rparr>))) < 3
   \<and> map_of (newErrors (dune_draft\<lparr>title := utf16 ''  a  ''\<rparr>)) Title = None"
  by (simp add: newErrors_Title dune_draft_def string_eval)

text \<open>
  C3, as the code has it. For every raw input string, a field change of \<open>quantity\<close>
  stores \<open>Math.max(1, parseInt(raw))\<close>. When \<open>parseInt\<close> reads a number, the stored value
  is a number that is at least 1 (an integer, or infinity for a run of digits beyond the
  range of a double). When \<open>parseInt\<close> finds no digit, which is exactly when it returns
  \<open>NaN\<close>, the stored value is \<open>NaN\<close>, and a validation pass over the new draft reports
  the quantity error. No value below 1 is ever stored.
\<close>

theorem C3_quantity_change:
  "quantity (formData (run_form s (handleChange (formData s) Name_quantity raw)))
     = Math_max (Num 1) (parseInt raw)
   \<and> (parseInt raw = NaN \<longrightarrow>
        quantity (formData (run_form s (handleChange (formData s) Name_quantity raw))) = NaN
        \<and> map_of (newErrors (formData (run_form s (handleChange (formData s) Name_quantity raw))))
              Quantity = Some (utf16 ''Quantity must be a positive number.''))
   \<and> (parseInt raw \<noteq> NaN \<longrightarrow>
        quantity (formData (run_form s (handleChange (formData s) Name_quantity raw))) = Infinity
        \<or> (\<exists>n\<ge>1. quantity (formData (run_form s (handleChange (formData s) Name_quantity raw)))
               = Num n))
   \<and> \<not> number_less
          (quantity (formData (run_form s (handleChange (formData s) Name_quantity raw))))
          (Num 1)
   \<and> (parseInt raw = NaN \<longleftrightarrow> snd (snd (digit_run raw)) = [])"
proof (cases "parseInt raw = NaN")
  case True
  then show ?thesis
    using parseInt_NaN_iff [of raw]
    by (simp add: stored_quantity newErrors_Quantity isNaN_def)
next
  case False
  then show ?thesis
    using Math_max_1_floor [of "parseInt raw"] Math_max_1_not_less [of "parseInt raw"]
      parseInt_NaN_iff [of raw]
    by (simp add: stored_quantity)
qed

text \<open>
  C3 at the inputs \<open>-5\<close>, which stores 1, and \<open>abc\<close>, which stores a value that fails
  validation.
\<close>

theorem C3_quantity_change_witness:
  "parseInt (utf16 ''-5'') \<noteq> NaN
   \<and> quantity (formData (run_form initial_state
        (handleChange (formData initial_state) Name_quantity (utf16 ''-5'')))) = Num 1
   \<and> parseInt (utf16 ''abc'') = NaN
   \<and> map_of (newErrors (formData (run_form initial_state
        (handleChange (formData initial_state) Name_quantity (utf16 ''abc''))))) Quantity
       = Some (utf16 ''Quantity must be a positive number.'')"
  using C3_quantity_change [of initial_state "utf16 ''-5''"]
    C3_quantity_change [of initial_state "utf16 ''abc''"]
  by (simp add: parseInt_minus_5 parseInt_abc)

text \<open>
  C3 as stated fails: the input \<open>abc\<close> is not clamped to 1. The value stored in the
  draft is \<open>NaN\<close>, which is no integer.
\<close>

theorem C3_quantity_change_counterexample:
  "quantity (formData (run_form initial_state
      (handleChange (formData initial_state) Name_quantity (utf16 ''abc'')))) = NaN
   \<and> \<not> (\<exists>n\<ge>1. quantity (formData (run_form initial_state
      (handleChange (formData initial_state) Name_quantity (utf16 ''abc'')))) = Num n)"
  by (simp add: stored_quantity parseInt_abc)

text \<open>
  C5. For every draft that \<open>validate\<close> accepts, \<open>handleSubmit\<close> calls \<open>add\<close> exactly
  once, whatever becomes of it, and issues \<open>getAll\<close> only once \<open>add\<close> has completed.
  When \<open>add\<close> completes, the handler does this, in this order: \<open>add(form)\<close>, then
  \<open>getAll(current_page)\<close>, each exactly once, then the reset of the draft to an empty
  title and author, no cover and quantity 1, then the clearing of the preview, then the
  close signal. The draft and the preview of the resulting state are the initial ones.
\<close>

theorem C5_valid_submit:
  assumes "snd (validate (formData s))"
  shows "handleSubmit current_page (formData s) (Fulfilled ()) =
           ([PreventDefault, SetErrors [], Add (payload (formData s)), GetAll current_page,
             SetFormData \<lparr>title = [], author = [], cover = None, quantity = Num 1\<rparr>,
             SetPreview [], Handle],
            Fulfilled ())
         \<and> filter is_network_call (fst (handleSubmit current_page (formData s) add_result))
             = (case add_result of
                  Fulfilled _ \<Rightarrow> [Add (payload (formData s)), GetAll current_page]
                | Rejected _ \<Rightarrow> [Add (payload (formData s))])
         \<and> formData (run_form s (fst (handleSubmit current_page (formData s) (Fulfilled ()))))
             = \<lparr>title = [], author = [], cover = None, quantity = Num 1\<rparr>
         \<and> preview (run_form s (fst (handleSubmit current_page (formData s) (Fulfilled ()))))
             = []"
proof -
  have v: "newErrors (formData s) = []"
    using assms by (simp add: valid_iff)
  have h: "handleSubmit current_page (formData s) (Fulfilled ()) =
           ([PreventDefault, SetErrors [], Add (payload (formData s)), GetAll current_page,
             SetFormData \<lparr>title = [], author = [], cover = None, quantity = Num 1\<rparr>,
             SetPreview [], Handle],
            Fulfilled ())"
    by (simp add: handleSubmit_def validate_def v)
  have n: "filter is_network_call (fst (handleSubmit current_page (formData s) add_result))
             = (case add_result of
                  Fulfilled _ \<Rightarrow> [Add (payload (formData s)), GetAll current_page]
                | Rejected _ \<Rightarrow> [Add (payload (formData s))])"
    by (cases add_result) (simp_all add: handleSubmit_def validate_def v is_network_call_def)
  show ?thesis
    unfolding h n by (simp add: run_form_def)
qed

text \<open>C5 at the draft \<open>dune_draft\<close>, with the store on page 3.\<close>

theorem C5_valid_submit_witness:
  "snd (validate (formData dune_state))
   \<and> handleSubmit 3 (formData dune_state) (Fulfilled ()) =
       ([PreventDefault, SetErrors [], Add (payload (formData dune_state)), GetAll 3,
         SetFormData \<lparr>title = [], author = [], cover = None, quantity = Num 1\<rparr>,
         SetPreview [], Handle],
        Fulfilled ())
   \<and> formData (run_form dune_state (fst (handleSubmit 3 (formData dune_state) (Fulfilled ()))))
       = \<lparr>title = [], author = [], cover = None, quantity = Num 1\<rparr>
   \<and> preview (run_form dune_state (fst (handleSubmit 3 (formData dune_state) (Fulfilled ()))))
       = []"
  using dune_state_valid C5_valid_submit [OF dune_state_valid, of 3] by blast

text \<open>
  C6. For every draft with a title or an author shorter than 3, a quantity below 1 or
  not a number, or a cover that is absent or of a type that is not allowed, \<open>validate\<close>
  builds a non-empty error object, and \<open>handleSubmit\<close> stores it and returns: it calls
  neither \<open>add\<close> nor \<open>getAll\<close>, and the errors of the resulting state are these errors.
\<close>

theorem C6_invalid_submit:
  assumes "length (title d) < 3 \<or> length (author d) < 3
           \<or> number_less (quantity d) (Num 1) \<or> isNaN (quantity d)
           \<or> cover d = None \<or> (\<exists>f. cover d = Some f \<and> type f \<notin> set allowedTypes)"
  shows "newErrors d \<noteq> []
         \<and> handleSubmit current_page d add_result
             = ([PreventDefault, SetErrors (newErrors d)], Fulfilled ())
         \<and> filter is_network_call (fst (handleSubmit current_page d add_result)) = []
         \<and> errors (run_form s (fst (handleSubmit current_page d add_result))) = newErrors d"
proof -
  have n: "newErrors d \<noteq> []"
    using assms by (rule invalid_newErrors)
  have h: "handleSubmit current_page d add_result
             = ([PreventDefault, SetErrors (newErrors d)], Fulfilled ())"
    using n by (simp add: handleSubmit_def validate_def)
  show ?thesis
    unfolding h using n by (simp add: is_network_call_def run_form_def)
qed

text \<open>C6 at the empty draft of a fresh form, and at a draft whose cover is a PDF.\<close>

theorem C6_invalid_submit_witness:
  "length (title initial_formData) < 3
   \<and> newErrors initial_formData \<noteq> []
   \<and> handleSubmit 1 initial_formData (Fulfilled ())
       = ([PreventDefault, SetErrors (newErrors initial_formData)], Fulfilled ())
   \<and> (\<exists>f. cover pdf_draft = Some f \<and> type f \<notin> set allowedTypes)
   \<and> newErrors pdf_draft \<noteq> []
   \<and> filter is_network_call (fst (handleSubmit 1 pdf_draft (Fulfilled ()))) = []"
proof -
  have i: "length (title initial_formData) < 3 \<or> length (author initial_formData) < 3
           \<or> number_less (quantity initial_formData) (Num 1) \<or> isNaN (quantity initial_formData)
           \<or> cover initial_formData = None
           \<or> (\<exists>f. cover initial_formData = Some f \<and> type f \<notin> set allowedTypes)"
    using initial_formData_invalid by blast
  have p: "length (title pdf_draft) < 3 \<or> length (author pdf_draft) < 3
           \<or> number_less (quantity pdf_draft) (Num 1) \<or> isNaN (quantity pdf_draft)
           \<or> cover pdf_draft = None
           \<or> (\<exists>f. cover pdf_draft = Some f \<and> type f \<notin> set allowedTypes)"
    using pdf_draft_invalid by blast
  show ?thesis
    using C6_invalid_submit [OF i, of 1 "Fulfilled ()" initial_state]
      C6_invalid_submit [OF p, of 1 "Fulfilled ()" initial_state]
      initial_formData_invalid pdf_draft_invalid
    by blast
qed

text \<open>
  C7. For every draft, \<open>validate\<close> reports the cover error "Please upload an image."
  exactly when the cover is absent, and the cover error "Only JPG, PNG, or GIF images are
  allowed." exactly when a cover is present whose media type is none of image/jpeg,
  image/png and image/gif; a present cover of an allowed type has no cover error. The two
  messages differ, so the two errors exclude each other, and a present cover of a wrong
  type gets the type error, never the absent one. (The messages of the source end with a
  full stop.)
\<close>

theorem C7_cover_errors:
  "(map_of (newErrors d) Cover = Some (utf16 ''Please upload an image.'')
      \<longleftrightarrow> cover d = None)
   \<and> (map_of (newErrors d) Cover = Some (utf16 ''Only JPG, PNG, or GIF images are allowed.'')
      \<longleftrightarrow> (\<exists>f. cover d = Some f
            \<and> type f \<notin> {utf16 ''image/jpeg'', utf16 ''image/png'', utf16 ''image/gif''}))
   \<and> (map_of (newErrors d) Cover = None
      \<longleftrightarrow> (\<exists>f. cover d = Some f
            \<and> type f \<in> {utf16 ''image/jpeg'', utf16 ''image/png'', utf16 ''image/gif''}))"
proof -
  have allowed: "set allowedTypes = {utf16 ''image/jpeg'', utf16 ''image/png'', utf16 ''image/gif''}"
    by (simp add: allowedTypes_def)
  show ?thesis
  proof (cases "cover d")
    case None
    then show ?thesis
      using cover_messages_differ by (simp add: newErrors_Cover)
  next
    case (Some f)
    then show ?thesis
      using cover_messages_differ by (simp add: newErrors_Cover allowed del: insert_iff)
  qed
qed

text \<open>
  C10, as the code has it. For every draft that \<open>validate\<close> accepts, if \<open>add\<close> rejects
  during \<open>handleSubmit\<close>, then \<open>getAll\<close> is not called and the close signal is not given,
  the draft and the preview are left as they were (no reset occurs), the field errors
  are the empty ones that the validation pass of this submit has stored, so that the
  state is the one that pass left, and the promise of \<open>handleSubmit\<close> rejects with the
  reason of \<open>add\<close>.
\<close>

theorem C10_add_rejected:
  assumes "snd (validate (formData s))"
  shows "handleSubmit current_page (formData s) (Rejected err) =
           ([PreventDefault, SetErrors [], Add (payload (formData s))], Rejected err)
         \<and> filter is_network_call (fst (handleSubmit current_page (formData s) (Rejected err)))
             = [Add (payload (formData s))]
         \<and> Handle \<notin> set (fst (handleSubmit current_page (formData s) (Rejected err)))
         \<and> formData (run_form s (fst (handleSubmit current_page (formData s) (Rejected err))))
             = formData s
         \<and> preview (run_form s (fst (handleSubmit current_page (formData s) (Rejected err))))
             = preview s
         \<and> errors (run_form s (fst (handleSubmit current_page (formData s) (Rejected err))))
             = []
         \<and> run_form s (fst (handleSubmit current_page (formData s) (Rejected err)))
             = run_form s (fst (validate (formData s)))
         \<and> snd (handleSubmit current_page (formData s) (Rejected err)) = Rejected err"
proof -
  have v: "newErrors (formData s) = []"
    using assms by (simp add: valid_iff)
  have h: "handleSubmit current_page (formData s) (Rejected err) =
           ([PreventDefault, SetErrors [], Add (payload (formData s))], Rejected err)"
    by (simp add: handleSubmit_def validate_def v)
  show ?thesis
    unfolding h by (simp add: is_network_call_def run_form_def validate_def v)
qed

text \<open>C10 at the draft \<open>dune_draft\<close>, with an \<open>add\<close> that fails with "network down".\<close>

theorem C10_add_rejected_witness:
  "snd (validate (formData dune_state))
   \<and> handleSubmit 3 (formData dune_state) (Rejected (Value \<lparr>message = Some (utf16 ''network down'')\<rparr>))
       = ([PreventDefault, SetErrors [], Add (payload (formData dune_state))],
          Rejected (Value \<lparr>message = Some (utf16 ''network down'')\<rparr>))
   \<and> formData (run_form dune_state (fst (handleSubmit 3 (formData dune_state)
          (Rejected (Value \<lparr>message = Some (utf16 ''network down'')\<rparr>)))))
       = formData dune_state
   \<and> preview (run_form dune_state (fst (handleSubmit 3 (formData dune_state)
          (Rejected (Value \<lparr>message = Some (utf16 ''network down'')\<rparr>)))))
       = preview dune_state"
  using dune_state_valid
    C10_add_rejected [OF dune_state_valid, of 3 "Value \<lparr>message = Some (utf16 ''network down'')\<rparr>"]
  by blast

text \<open>
  C10 as stated fails on the field errors. In \<open>stale_state\<close> the draft is valid and the
  form still shows the title error of the draft before the last key stroke, since
  \<open>handleChange\<close> validates the draft of the render it runs in. A submit whose \<open>add\<close>
  rejects leaves other field errors than it found: its validation pass has emptied them.
\<close>

theorem C10_add_rejected_counterexample:
  "snd (validate (formData stale_state))
   \<and> errors stale_state = [(Title, utf16 ''Title must be at least 3 characters long.'')]
   \<and> errors (run_form stale_state (fst (handleSubmit 3 (formData stale_state)
          (Rejected (Value \<lparr>message = Some (utf16 ''network down'')\<rparr>)))))
       \<noteq> errors stale_state"
  by (simp add: formData_stale_state errors_stale_state valid_iff dune_draft_valid
      handleSubmit_def validate_def run_form_def)


section \<open>The claims on authController.ts\<close>

text \<open>
  C1, as the code has it. When the remote logout call resolves, \<open>handleLogout\<close> calls the
  Session Store's \<open>logout()\<close> exactly once and then triggers the navigation to \<open>/login\<close>
  exactly once, both after the gateway call. When the remote call rejects, the handler
  stops there: it calls neither \<open>logout()\<close> nor \<open>navigate\<close>, and its promise rejects with
  the same reason.
\<close>

theorem C1_logout:
  "handleLogout (Fulfilled ())
     = ([AuthService_logout, Logout, Navigate (utf16 ''/login'')], Fulfilled ())
   \<and> count_list (fst (handleLogout (Fulfilled ()))) Logout = 1
   \<and> filter is_navigation (fst (handleLogout (Fulfilled ()))) = [Navigate (utf16 ''/login'')]
   \<and> handleLogout (Rejected err) = ([AuthService_logout], Rejected err)
   \<and> filter is_store_mutation (fst (handleLogout (Rejected err))) = []
   \<and> filter is_navigation (fst (handleLogout (Rejected err))) = []"
  by (simp add: handleLogout_def is_navigation_def is_store_mutation_def)

text \<open>
  C1 as stated fails: when the remote logout call rejects with "network down", the only
  effect of \<open>handleLogout\<close> is the gateway call. \<open>logout()\<close> is not called once, and
  there is no navigation to \<open>/login\<close>.
\<close>

theorem C1_logout_counterexample:
  "fst (handleLogout (Rejected (Value \<lparr>message = Some (utf16 ''network down'')\<rparr>)))
     = [AuthService_logout]
   \<and> \<not> (count_list (fst (handleLogout (Rejected (Value \<lparr>message = Some (utf16 ''network down'')\<rparr>))))
            Logout = 1
         \<and> count_list (fst (handleLogout (Rejected (Value \<lparr>message = Some (utf16 ''network down'')\<rparr>))))
            (Navigate (utf16 ''/login'')) = 1)"
  by (simp add: handleLogout_def)

text \<open>
  C4, as the code has it. For every successful login response: if the \<open>data\<close> of the
  envelope is present, \<open>handleLogin\<close> calls the Session Store's \<open>login\<close> exactly once,
  with the \<open>access_token\<close> of that data, and then triggers the navigation to \<open>/\<close>, and
  \<open>error\<close> is left null; if the \<open>data\<close> is null, \<open>error\<close> is set to "Login failed,
  please try again", with no call on the Session Store and no navigation.
\<close>

theorem C4_login_success:
  "handleLogin email password (Fulfilled \<lparr>response.data = \<lparr>envelope.data = Some d\<rparr>\<rparr>)
     = ([SetLoading True, SetError None, AuthService_login email password,
         Login (access_token d), Navigate (utf16 ''/''), SetLoading False],
        Fulfilled ())
   \<and> filter is_store_mutation
        (fst (handleLogin email password
           (Fulfilled \<lparr>response.data = \<lparr>envelope.data = Some d\<rparr>\<rparr>)))
       = [Login (access_token d)]
   \<and> filter is_navigation
        (fst (handleLogin email password
           (Fulfilled \<lparr>response.data = \<lparr>envelope.data = Some d\<rparr>\<rparr>)))
       = [Navigate (utf16 ''/'')]
   \<and> error (run_auth s
        (fst (handleLogin email password
           (Fulfilled \<lparr>response.data = \<lparr>envelope.data = Some d\<rparr>\<rparr>))))
       = None
   \<and> handleLogin email password (Fulfilled \<lparr>response.data = \<lparr>envelope.data = None\<rparr>\<rparr>)
     = ([SetLoading True, SetError None, AuthService_login email password,
         SetError (Some (utf16 ''Login failed, please try again'')), SetLoading False],
        Fulfilled ())
   \<and> filter is_store_mutation
        (fst (handleLogin email password
           (Fulfilled \<lparr>response.data = \<lparr>envelope.data = None\<rparr>\<rparr>)))
       = []
   \<and> filter is_navigation
        (fst (handleLogin email password
           (Fulfilled \<lparr>response.data = \<lparr>envelope.data = None\<rparr>\<rparr>)))
       = []
   \<and> error (run_auth s
        (fst (handleLogin email password
           (Fulfilled \<lparr>response.data = \<lparr>envelope.data = None\<rparr>\<rparr>))))
       = Some (utf16 ''Login failed, please try again'')"
  by (simp add: handleLogin_def is_navigation_def is_store_mutation_def run_auth_def)

text \<open>
  C4 as stated fails: on the response whose data carries the empty token,
  \<open>handleLogin\<close> calls \<open>login\<close> with the empty string and navigates, and sets no error.
\<close>

theorem C4_login_success_counterexample:
  "fst (handleLogin (utf16 ''a@b.com'') (utf16 ''pw'')
         (Fulfilled \<lparr>response.data = \<lparr>envelope.data = Some \<lparr>access_token = []\<rparr>\<rparr>\<rparr>))
     = [SetLoading True, SetError None, AuthService_login (utf16 ''a@b.com'') (utf16 ''pw''),
        Login [], Navigate (utf16 ''/''), SetLoading False]
   \<and> error (run_auth idle (fst (handleLogin (utf16 ''a@b.com'') (utf16 ''pw'')
         (Fulfilled \<lparr>response.data = \<lparr>envelope.data = Some \<lparr>access_token = []\<rparr>\<rparr>\<rparr>))))
     \<noteq> Some (utf16 ''Login failed, please try again'')
   \<and> filter is_store_mutation (fst (handleLogin (utf16 ''a@b.com'') (utf16 ''pw'')
         (Fulfilled \<lparr>response.data = \<lparr>envelope.data = Some \<lparr>access_token = []\<rparr>\<rparr>\<rparr>)))
     \<noteq> []
   \<and> filter is_navigation (fst (handleLogin (utf16 ''a@b.com'') (utf16 ''pw'')
         (Fulfilled \<lparr>response.data = \<lparr>envelope.data = Some \<lparr>access_token = []\<rparr>\<rparr>\<rparr>)))
     \<noteq> []"
  by (simp add: handleLogin_def is_navigation_def is_store_mutation_def run_auth_def idle_def)

text \<open>
  C8. For every way the gateway call settles (a response with data, a response without,
  a rejection with any reason, null and undefined included), \<open>handleLogin\<close> and
  \<open>register\<close> start with \<open>setLoading(true)\<close>, so that \<open>loading\<close> is true after the first
  step, and end with \<open>setLoading(false)\<close>: \<open>loading\<close> is false in the state the handler
  leaves. The promise of the handler is fulfilled, except on a rejection with null or
  undefined, where it rejects with the TypeError of the \<open>catch\<close> block; \<open>loading\<close> is
  false there too.
\<close>

theorem C8_loading:
  "hd (fst (handleLogin email password login_result)) = SetLoading True
   \<and> loading (run_auth s (take 1 (fst (handleLogin email password login_result)))) = True
   \<and> last (fst (handleLogin email password login_result)) = SetLoading False
   \<and> loading (run_auth s (fst (handleLogin email password login_result))) = False
   \<and> snd (handleLogin email password login_result)
       = (case login_result of
            Fulfilled _ \<Rightarrow> Fulfilled ()
          | Rejected err \<Rightarrow>
              (case read_message err of Inr _ \<Rightarrow> Fulfilled () | Inl e \<Rightarrow> Rejected e))
   \<and> hd (fst (register name email password password_confirmation register_result))
       = SetLoading True
   \<and> loading (run_auth s
        (take 1 (fst (register name email password password_confirmation register_result))))
       = True
   \<and> last (fst (register name email password password_confirmation register_result))
       = SetLoading False
   \<and> loading (run_auth s
        (fst (register name email password password_confirmation register_result))) = False
   \<and> snd (register name email password password_confirmation register_result)
       = (case register_result of
            Fulfilled _ \<Rightarrow> Fulfilled ()
          | Rejected err \<Rightarrow>
              (case read_message err of Inr _ \<Rightarrow> Fulfilled () | Inl e \<Rightarrow> Rejected e))"
proof -
  obtain m1 where l: "fst (handleLogin email password login_result)
     = [SetLoading True, SetError None, AuthService_login email password]
       @ m1 @ [SetLoading False]"
    using handleLogin_shape by blast
  obtain m2 where r: "fst (register name email password password_confirmation register_result)
     = [SetLoading True, SetError None,
        AuthService_register name email password password_confirmation]
       @ m2 @ [SetLoading False]"
    using register_shape by blast
  have l4: "loading (run_auth s (fst (handleLogin email password login_result))) = False"
    unfolding l
    using loading_after_last
      [of s "[SetLoading True, SetError None, AuthService_login email password] @ m1" False]
    by simp
  have r4: "loading (run_auth s
      (fst (register name email password password_confirmation register_result))) = False"
    unfolding r
    using loading_after_last
      [of s "[SetLoading True, SetError None,
              AuthService_register name email password password_confirmation] @ m2" False]
    by simp
  have l123: "hd (fst (handleLogin email password login_result)) = SetLoading True
   \<and> loading (run_auth s (take 1 (fst (handleLogin email password login_result)))) = True
   \<and> last (fst (handleLogin email password login_result)) = SetLoading False"
    unfolding l by (simp add: run_auth_def)
  have r123: "hd (fst (register name email password password_confirmation register_result))
       = SetLoading True
   \<and> loading (run_auth s
        (take 1 (fst (register name email password password_confirmation register_result))))
       = True
   \<and> last (fst (register name email password password_confirmation register_result))
       = SetLoading False"
    unfolding r by (simp add: run_auth_def)
  have l5: "snd (handleLogin email password login_result)
       = (case login_result of
            Fulfilled _ \<Rightarrow> Fulfilled ()
          | Rejected err \<Rightarrow>
              (case read_message err of Inr _ \<Rightarrow> Fulfilled () | Inl e \<Rightarrow> Rejected e))"
    by (simp add: handleLogin_def split: settled.split sum.split)
  have r5: "snd (register name email password password_confirmation register_result)
       = (case register_result of
            Fulfilled _ \<Rightarrow> Fulfilled ()
          | Rejected err \<Rightarrow>
              (case read_message err of Inr _ \<Rightarrow> Fulfilled () | Inl e \<Rightarrow> Rejected e))"
    by (simp add: register_def split: settled.split sum.split)
  show ?thesis
    using l123 l4 l5 r123 r4 r5 by blast
qed

text \<open>
  C9. The claim: for every rejection of the login call, the rejection is caught in the
  handler and does not leave it, \<open>error\<close> is set to the message of the failure when it
  has one and to "Invalid credentials" otherwise, and there is no call on the Session
  Store and no navigation. What \<open>handleLogin\<close> does: on a rejection with any value but
  null and undefined, exactly that (the message counts when it is present and not
  empty). On a rejection with null or undefined, the \<open>catch\<close> block throws while reading
  \<open>err.message\<close>: \<open>error\<close> stays null, and the promise of the handler rejects with the
  TypeError. There is no call on the Session Store and no navigation on any rejection.
\<close>

theorem C9_login_rejected:
  "handleLogin email password (Rejected (Value f))
     = ([SetLoading True, SetError None, AuthService_login email password,
         Console_log (Value f),
         SetError (Some (or_else (message f) (utf16 ''Invalid credentials''))),
         SetLoading False],
        Fulfilled ())
   \<and> error (run_auth s (fst (handleLogin email password (Rejected (Value f)))))
       = Some (case message f of
                 None \<Rightarrow> utf16 ''Invalid credentials''
               | Some m \<Rightarrow> (if m = [] then utf16 ''Invalid credentials'' else m))
   \<and> handleLogin email password (Rejected Undefined)
     = ([SetLoading True, SetError None, AuthService_login email password,
         Console_log Undefined, SetLoading False],
        Rejected (Value \<lparr>message = Some (cannot_read_message Undefined)\<rparr>))
   \<and> handleLogin email password (Rejected Null)
     = ([SetLoading True, SetError None, AuthService_login email password,
         Console_log Null, SetLoading False],
        Rejected (Value \<lparr>message = Some (cannot_read_message Null)\<rparr>))
   \<and> error (run_auth s (fst (handleLogin email password (Rejected Undefined)))) = None
   \<and> error (run_auth s (fst (handleLogin email password (Rejected Null)))) = None
   \<and> filter is_store_mutation (fst (handleLogin email password (Rejected err))) = []
   \<and> filter is_navigation (fst (handleLogin email password (Rejected err))) = []"
proof -
  have v: "handleLogin email password (Rejected (Value f))
     = ([SetLoading True, SetError None, AuthService_login email password,
         Console_log (Value f),
         SetError (Some (or_else (message f) (utf16 ''Invalid credentials''))),
         SetLoading False],
        Fulfilled ())"
    by (simp add: handleLogin_def read_message_def)
  have u: "handleLogin email password (Rejected Undefined)
     = ([SetLoading True, SetError None, AuthService_login email password,
         Console_log Undefined, SetLoading False],
        Rejected (Value \<lparr>message = Some (cannot_read_message Undefined)\<rparr>))"
    by (simp add: handleLogin_def read_message_def)
  have n: "handleLogin email password (Rejected Null)
     = ([SetLoading True, SetError None, AuthService_login email password,
         Console_log Null, SetLoading False],
        Rejected (Value \<lparr>message = Some (cannot_read_message Null)\<rparr>))"
    by (simp add: handleLogin_def read_message_def)
  have e: "error (run_auth s (fst (handleLogin email password (Rejected (Value f)))))
       = Some (case message f of
                 None \<Rightarrow> utf16 ''Invalid credentials''
               | Some m \<Rightarrow> (if m = [] then utf16 ''Invalid credentials'' else m))"
    unfolding v by (simp add: run_auth_def or_else_def split: option.split)
  have q: "filter is_store_mutation (fst (handleLogin email password (Rejected err))) = []
   \<and> filter is_navigation (fst (handleLogin email password (Rejected err))) = []"
    by (cases err)
      (simp_all add: handleLogin_def read_message_def is_store_mutation_def is_navigation_def)
  show ?thesis
    using e q unfolding v u n by (simp add: run_auth_def)
qed

text \<open>
  C9 at the failing input, a login call that rejects with undefined: the promise of
  \<open>handleLogin\<close> is not fulfilled, and \<open>error\<close> is not the fallback but still null. At a
  failure with the message "network down", the error is that message.
\<close>

theorem C9_login_rejected_counterexample:
  "snd (handleLogin (utf16 ''a@b.com'') (utf16 ''pw'') (Rejected Undefined)) \<noteq> Fulfilled ()
   \<and> error (run_auth idle
        (fst (handleLogin (utf16 ''a@b.com'') (utf16 ''pw'') (Rejected Undefined)))) = None
   \<and> error (run_auth idle
        (fst (handleLogin (utf16 ''a@b.com'') (utf16 ''pw'')
           (Rejected (Value \<lparr>message = Some (utf16 ''network down'')\<rparr>)))))
       = Some (utf16 ''network down'')"
  by (simp add: handleLogin_def read_message_def run_auth_def idle_def or_else_def utf16_def)

end
